theory Spec2Isabelle
  imports Main
begin

section \<open>Data model\<close>

text \<open>
  Values of the opaque columns (\<open>details\<close>, \<open>clientConfig\<close>), of the identifier and of
  the claims of a token payload: JSON values.
\<close>

datatype json =
    JNull
  | JBool bool
  | JNum int
  | JStr string
  | JArr "json list"
  | JObj "(string \<times> json) list"

text \<open>
  The object \<open>userData\<close> handed to \<open>register\<close>, and the object handed to
  \<open>User.create\<close>: the four properties \<open>username\<close>, \<open>password\<close>, \<open>details\<close>,
  \<open>clientConfig\<close>. A row of the user table is these four plus the identifier.
\<close>

record user_data =
  username :: string
  password :: string
  details :: json
  clientConfig :: json

record user = user_data +
  user_id :: json

text \<open>
  Modelled from the spec: the model \<open>../models/User\<close> is not part of the sources. The
  spec describes the user store as "queryable by id/username, with a password field
  excluded from default queries unless explicitly requested". A record read under the
  default scope therefore has no password property; \<open>scope('withPassword')\<close> reads the
  whole row.
\<close>

record user_view =
  view_id :: json
  view_username :: string
  view_details :: json
  view_clientConfig :: json

text \<open>
  Modelled from the spec: the default scope of the absent User model, which leaves the
  password out of what a query returns.
\<close>

definition defaultScope :: "user \<Rightarrow> user_view" where
  "defaultScope u =
     \<lparr>view_id = user_id u, view_username = username u,
      view_details = details u, view_clientConfig = clientConfig u\<rparr>"

text \<open>
  Modelled from the spec: \<open>scope('withPassword').findOne\<close> of the absent User model, over
  the table as a list of rows. It yields the first row that satisfies the \<open>where\<close>
  condition, whole, or nothing (\<open>null\<close>).
\<close>

definition findOne_withPassword :: "(user \<Rightarrow> bool) \<Rightarrow> user list \<Rightarrow> user option" where
  "findOne_withPassword wh rows = find wh rows"

text \<open>
  Modelled from the spec: \<open>findOne\<close> of the absent User model under its default scope:
  the same lookup, read without the password.
\<close>

definition findOne :: "(user \<Rightarrow> bool) \<Rightarrow> user list \<Rightarrow> user_view option" where
  "findOne wh rows = map_option defaultScope (find wh rows)"

text \<open>
  A value a promise is rejected with. \<open>error_toString\<close> is what the template literal
  \<open>${error}\<close> prints for a JavaScript \<open>Error\<close> with this name and message.
\<close>

datatype error = Error string string

fun error_toString :: "error \<Rightarrow> string" where
  "error_toString (Error nm msg) =
     (if nm = [] then msg else if msg = [] then nm else nm @ '': '' @ msg)"

text \<open>A JavaScript object literal: its properties in the order they are written.\<close>

datatype field_value = VBool bool | VStr string | VUser user

type_synonym result = "(string \<times> field_value) list"

type_synonym jwt_payload = "(string \<times> json) list"

text \<open>
  The collaborators that are imported from outside the file, taken as parameters:
  \<open>SecurityUtil.comparePassword\<close>, \<open>SecurityUtil.generateHash\<close>, the configured
  \<open>secretOrKey\<close> and \<open>User.create\<close>. \<open>create\<close> works on the table; it either
  rejects with an error or resolves with the new table and the created row (or with
  nothing). Of the token library the primitives are parameters: the base64url text of
  an object's JSON (\<open>base64url_json\<close>) and its reading back
  (\<open>json_base64url_decode\<close>), the HMAC-SHA256 signature of a text under a key in
  base64url (\<open>hs256\<close>), and the clock in seconds (\<open>now\<close>).
\<close>

record env =
  comparePassword :: "string \<Rightarrow> string \<Rightarrow> bool"
  generateHash :: "string \<Rightarrow> string"
  secretOrKey :: string
  create :: "user list \<Rightarrow> user_data \<Rightarrow> error + (user list \<times> user option)"
  base64url_json :: "jwt_payload \<Rightarrow> string"
  json_base64url_decode :: "string \<Rightarrow> jwt_payload option"
  hs256 :: "string \<Rightarrow> string \<Rightarrow> string"
  now :: int

text \<open>The state the service works on: the user table and what the logger has written.\<close>

datatype level = Debug | Info | Warn | Err

record state =
  users :: "user list"
  logged :: "(level \<times> string) list"

definition logger :: "level \<Rightarrow> string \<Rightarrow> state \<Rightarrow> state" where
  "logger lvl msg s = s\<lparr>logged := logged s @ [(lvl, msg)]\<rparr>"

section \<open>The token library as login calls it\<close>

text \<open>
  Assignment to a property of an object: an existing property keeps its place, a new
  one goes last.
\<close>

fun assign :: "string \<Rightarrow> json \<Rightarrow> jwt_payload \<Rightarrow> jwt_payload" where
  "assign k v [] = [(k, v)]"
| "assign k v (p # ps) = (if fst p = k then (k, v) # ps else p # assign k v ps)"

text \<open>The text \<open>split\<close> at every occurrence of a character, as JavaScript's \<open>split\<close>.\<close>

fun split_on :: "char \<Rightarrow> string \<Rightarrow> string list" where
  "split_on d [] = [[]]"
| "split_on d (c # cs) =
     (if c = d then [] # split_on d cs
      else (case split_on d cs of s # ss \<Rightarrow> (c # s) # ss | [] \<Rightarrow> [[c]]))"

text \<open>
  \<open>jwt.sign(payload, secretOrPrivateKey)\<close> of the jsonwebtoken library, called as
  login calls it: with an object as payload, a key, and no options. The header is
  \<open>{alg: "HS256", typ: "JWT"}\<close>. With no \<open>noTimestamp\<close> option the library sets the
  claim \<open>iat\<close> of the payload to \<open>payload.iat || Math.floor(Date.now() / 1000)\<close>. The
  token is the compact serialisation: the encoded header, the encoded claims and the
  signature of the two, joined by dots. (The library refuses a payload whose \<open>iat\<close>
  is not a number; the payload of login has none. The JwtStrategy built when the
  module loads refuses an empty key, so signing does not fail for want of one.)
\<close>

definition jwt_header :: jwt_payload where
  "jwt_header = [(''alg'', JStr ''HS256''), (''typ'', JStr ''JWT'')]"

definition jwt_sign :: "env \<Rightarrow> jwt_payload \<Rightarrow> string \<Rightarrow> string" where
  "jwt_sign env payload secretOrPrivateKey =
     (let timestamp = (case map_of payload ''iat'' of
                         Some (JNum n) \<Rightarrow> if n = 0 then now env else n
                       | _ \<Rightarrow> now env);
          claims = assign ''iat'' (JNum timestamp) payload;
          securedInput = base64url_json env jwt_header @ ''.'' @ base64url_json env claims
      in securedInput @ ''.'' @ hs256 env securedInput secretOrPrivateKey)"

text \<open>
  Modelled from the spec: "a token issued by login, when decoded". Decoding reads the
  claims back from the second of the three segments of the token.
\<close>

definition jwt_decode :: "env \<Rightarrow> string \<Rightarrow> jwt_payload option" where
  "jwt_decode env token =
     (case split_on (CHR ''.'') token of
        [h, p, sg] \<Rightarrow> json_base64url_decode env p
      | _ \<Rightarrow> None)"

section \<open>The authentication service\<close>

text \<open>
  \<open>AuthenticationService.login\<close>. The promise it returns is never rejected by the code
  of \<open>login\<close> itself, so the model returns the value it resolves with, and the state.
\<close>

definition login :: "env \<Rightarrow> state \<Rightarrow> string \<Rightarrow> string \<Rightarrow> result \<times> state" where
  "login env s inputName inputPassword =
     (let s1 = logger Info ''User is trying to login.'' s in
      case findOne_withPassword (\<lambda>u. username u = inputName) (users s1) of
        None \<Rightarrow>
          ([(''success'', VBool False), (''message'', VStr ''No such user.'')],
           logger Info ''Login failed. No such user.'' s1)
      | Some u \<Rightarrow>
          if comparePassword env inputPassword (password u) then
            (let s2 = logger Info ''User logged in.'' s1;
                 payload = [(''id'', user_id u), (''username'', JStr (username u))];
                 token = jwt_sign env payload (secretOrKey env)
             in ([(''success'', VBool True), (''message'', VStr ''User logged in.''),
                  (''token'', VStr token)], s2))
          else
            ([(''success'', VBool False), (''message'', VStr ''Password did not match.'')],
             logger Info ''Login failed. wrong password.'' s1))"

text \<open>
  \<open>AuthenticationService.register\<close>. The promise is resolved with a result object
  (\<open>Inr\<close>) or rejected with the error the \<open>catch\<close> handler throws again (\<open>Inl\<close>).
\<close>

definition register :: "env \<Rightarrow> state \<Rightarrow> user_data \<Rightarrow> (error + result) \<times> state" where
  "register env s userData =
     (let s1 = logger Debug (''Registering user '' @ username userData @ ''.'') s;
          hashedPassword = generateHash env (password userData)
      in case create env (users s1)
                \<lparr>username = username userData, password = hashedPassword,
                 details = details userData, clientConfig = clientConfig userData\<rparr> of
           Inr (rows, Some u) \<Rightarrow>
             (Inr [(''success'', VBool True), (''message'', VStr ''Registration completed.''),
                   (''user'', VUser u)],
              s1\<lparr>users := rows\<rparr>)
         | Inr (rows, None) \<Rightarrow>
             (Inr [(''success'', VBool False), (''message'', VStr ''Registration failed.'')],
              logger Warn ''Registration failed.'' (s1\<lparr>users := rows\<rparr>))
         | Inl e \<Rightarrow>
             (Inl e, logger Err (''Could not register user: '' @ error_toString e @ ''.'') s1))"

section \<open>The strategy callback\<close>

text \<open>
  The verify callback of \<open>jwtStrategy\<close> calls \<open>next\<close> once. \<open>Next err usr\<close> is the call
  \<open>next(err, usr)\<close>: \<open>None\<close> for the error is \<open>null\<close>, \<open>None\<close> for the user is
  \<open>false\<close>. The property \<open>id\<close> of the decoded payload is \<open>undefined\<close> when the payload
  has none, and no row has an undefined identifier.
\<close>

datatype next_call = Next "error option" "user_view option"

definition jwtStrategy :: "state \<Rightarrow> jwt_payload \<Rightarrow> next_call" where
  "jwtStrategy s jwtPayload =
     (case findOne (\<lambda>u. Some (user_id u) = map_of jwtPayload ''id'') (users s) of
        Some u \<Rightarrow> Next None (Some u)
      | None \<Rightarrow> Next None None)"

section \<open>A persistence layer and collaborators to run the service on\<close>

text \<open>
  Modelled from the spec: the identifier is unique. The largest number that is the
  identifier of a row (0 when there is none); the row created next gets the number
  after it.
\<close>

fun max_id :: "user list \<Rightarrow> int" where
  "max_id [] = 0"
| "max_id (u # us) = (case user_id u of JNum n \<Rightarrow> max n (max_id us) | _ \<Rightarrow> max_id us)"

text \<open>
  Modelled from the spec: \<open>User.create\<close> of the absent User model. The spec gives the
  username as unique, names the uniqueness violation as the persistence failure, and
  says that creation "either returns a record or raises". The new row carries the
  values it was given and an identifier that no row of the table has.
\<close>

definition User_create :: "user list \<Rightarrow> user_data \<Rightarrow> error + (user list \<times> user option)" where
  "User_create rows v =
     (if username v \<in> username ` set rows
      then Inl (Error ''SequelizeUniqueConstraintError'' ''Validation error'')
      else (let u = \<lparr>username = username v, password = password v, details = details v,
                      clientConfig = clientConfig v, user_id = JNum (max_id rows + 1)\<rparr>
            in Inr (rows @ [u], Some u)))"

text \<open>
  Modelled from the spec: what "persists a new user record" and "returns the created
  record" ask of a persistence layer, whatever the values: a record it returns as
  created is a row of the table it leaves and carries the values it was given.
\<close>

definition stores_given ::
  "(user list \<Rightarrow> user_data \<Rightarrow> error + (user list \<times> user option)) \<Rightarrow> bool" where
  "stores_given cr =
     (\<forall>rows v rows' u. cr rows v = Inr (rows', Some u) \<longrightarrow>
         u \<in> set rows' \<and> user_data.truncate u = v)"

text \<open>
  Stand-ins for the primitives, for running the service on concrete inputs: a hash that
  prefixes the password and its comparison; an encoding of an object that writes each
  property as name, dash, value, underscore (a number in strokes), with the decoding
  that reads this back; a signature that writes the key; a clock that stands at 5.
\<close>

definition example_encode :: "jwt_payload \<Rightarrow> string" where
  "example_encode c =
     concat (map (\<lambda>(k, v). k @ ''-'' @
                    (case v of JStr x \<Rightarrow> x | JNum n \<Rightarrow> replicate (nat n) (CHR ''I'') | _ \<Rightarrow> ''?'')
                    @ ''_'') c)"

definition example_decode :: "string \<Rightarrow> jwt_payload option" where
  "example_decode seg =
     Some (map (\<lambda>e. let k = takeWhile (\<lambda>c. c \<noteq> CHR ''-'') e;
                         v = drop 1 (dropWhile (\<lambda>c. c \<noteq> CHR ''-'') e)
                     in (k, if v \<noteq> [] \<and> list_all (\<lambda>c. c = CHR ''I'') v
                            then JNum (int (length v)) else JStr v))
             (butlast (split_on (CHR ''_'') seg)))"

definition example_env :: env where
  "example_env =
     \<lparr>comparePassword = (\<lambda>p h. h = ''#'' @ p),
      generateHash = (\<lambda>p. ''#'' @ p),
      secretOrKey = ''key'',
      create = User_create,
      base64url_json = example_encode,
      json_base64url_decode = example_decode,
      hs256 = (\<lambda>input k. ''mac_'' @ k),
      now = 5\<rparr>"

definition example_state :: state where
  "example_state =
     \<lparr>users =
        [\<lparr>username = ''alice'', password = ''#rabbit'', details = JNull,
          clientConfig = JNull, user_id = JNum 1\<rparr>,
         \<lparr>username = ''bob'', password = ''#builder'', details = JStr ''b'',
          clientConfig = JNull, user_id = JNum 2\<rparr>],
      logged = []\<rparr>"

section \<open>Lookup lemmas\<close>

lemma find_absent:
  "nm \<notin> username ` set rows \<Longrightarrow> find (\<lambda>u. username u = nm) rows = None"
  by (induction rows) auto

lemma find_SomeD: "find P rows = Some u \<Longrightarrow> P u \<and> u \<in> set rows"
  by (induction rows) (auto split: if_splits)

lemma find_unique_username:
  "distinct (map username rows) \<Longrightarrow> u \<in> set rows \<Longrightarrow>
   find (\<lambda>x. username x = username u) rows = Some u"
  by (induction rows) auto

lemma find_present:
  "\<exists>u\<in>set rows. P u \<Longrightarrow> \<exists>u\<in>set rows. P u \<and> find P rows = Some u"
  by (induction rows) auto

lemma find_none: "\<forall>u\<in>set rows. \<not> P u \<Longrightarrow> find P rows = None"
  by (induction rows) auto

lemma find_unique_id:
  "distinct (map user_id rows) \<Longrightarrow> u \<in> set rows \<Longrightarrow>
   find (\<lambda>x. Some (user_id x) = Some (user_id u)) rows = Some u"
  by (induction rows) auto

text \<open>
  The uniqueness of usernames, which the theorems on a known username assume, is kept
  by the persistence layer modelled above.
\<close>

lemma User_create_keeps_usernames_unique:
  "distinct (map username rows) \<Longrightarrow> User_create rows v = Inr (rows', r) \<Longrightarrow>
   distinct (map username rows')"
  by (auto simp: User_create_def Let_def split: if_splits)

lemma max_id_bound: "u \<in> set rows \<Longrightarrow> user_id u = JNum n \<Longrightarrow> n \<le> max_id rows"
  by (induction rows) (auto split: json.splits)

lemma max_id_fresh: "JNum (max_id rows + 1) \<notin> user_id ` set rows"
proof
  assume "JNum (max_id rows + 1) \<in> user_id ` set rows"
  then obtain u where "u \<in> set rows" "user_id u = JNum (max_id rows + 1)" by auto
  from max_id_bound [OF this] show False by simp
qed

text \<open>So is the uniqueness of identifiers.\<close>

lemma User_create_keeps_ids_unique:
  "distinct (map user_id rows) \<Longrightarrow> User_create rows v = Inr (rows', r) \<Longrightarrow>
   distinct (map user_id rows')"
  using max_id_fresh [of rows]
  by (auto simp: User_create_def Let_def split: if_splits)

lemma User_create_stores_given: "stores_given User_create"
  by (auto simp: stores_given_def User_create_def Let_def user_data.truncate_def
      split: if_splits)

section \<open>Lemmas on the token\<close>

lemma split_on_not_Nil: "split_on d s \<noteq> []"
  by (induction s) (auto split: list.splits)

lemma split_on_free: "d \<notin> set a \<Longrightarrow> split_on d a = [a]"
  by (induction a) auto

lemma split_on_append: "d \<notin> set a \<Longrightarrow> split_on d (a @ d # b) = a # split_on d b"
  by (induction a) auto

lemma split_on_three:
  "d \<notin> set a \<Longrightarrow> d \<notin> set b \<Longrightarrow> d \<notin> set c \<Longrightarrow>
   split_on d (a @ d # b @ d # c) = [a, b, c]"
  by (simp add: split_on_append split_on_free)

lemma jwt_sign_login_payload:
  "jwt_sign env [(''id'', i), (''username'', n)] k =
     base64url_json env jwt_header @ ''.''
     @ base64url_json env [(''id'', i), (''username'', n), (''iat'', JNum (now env))] @ ''.''
     @ hs256 env (base64url_json env jwt_header @ ''.''
          @ base64url_json env [(''id'', i), (''username'', n), (''iat'', JNum (now env))]) k"
  by (simp add: jwt_sign_def Let_def)

lemma jwt_sign_not_empty: "jwt_sign env payload k \<noteq> []"
  by (simp add: jwt_sign_def Let_def)

section \<open>Login\<close>

text \<open>
  C3: when the table holds no user with the supplied username, login resolves with the
  object of exactly the two properties success = false and message = "No such user.",
  so it has no token property.
\<close>

theorem login_no_such_user:
  assumes "inputName \<notin> username ` set (users s)"
  shows "fst (login env s inputName inputPassword) =
           [(''success'', VBool False), (''message'', VStr ''No such user.'')]
         \<and> map_of (fst (login env s inputName inputPassword)) ''token'' = None"
  using find_absent [OF assms]
  by (simp add: login_def findOne_withPassword_def logger_def)

theorem login_no_such_user_witness:
  "''carol'' \<notin> username ` set (users example_state)
   \<and> fst (login example_env example_state ''carol'' ''rabbit'') =
       [(''success'', VBool False), (''message'', VStr ''No such user.'')]
   \<and> map_of (fst (login example_env example_state ''carol'' ''rabbit'')) ''token'' = None"
proof -
  have absent: "''carol'' \<notin> username ` set (users example_state)"
    by (simp add: example_state_def)
  from login_no_such_user [OF absent, of example_env "''rabbit''"] absent
  show ?thesis by simp
qed

text \<open>
  C1: the result of login has a token property only if the lookup by the supplied
  username found a user of the table with exactly that username and the comparison of
  the supplied password with that user's stored hash succeeded. So the not-found and
  the mismatch branches issue no token.
\<close>

theorem login_token_only_after_match:
  assumes "map_of (fst (login env s inputName inputPassword)) ''token'' = Some t"
  shows "\<exists>u. findOne_withPassword (\<lambda>u. username u = inputName) (users s) = Some u
             \<and> u \<in> set (users s) \<and> username u = inputName
             \<and> comparePassword env inputPassword (password u)"
proof (cases "find (\<lambda>u. username u = inputName) (users s)")
  case None
  with assms show ?thesis
    by (simp add: login_def findOne_withPassword_def logger_def)
next
  case (Some u)
  from find_SomeD [OF Some] have u: "username u = inputName" "u \<in> set (users s)"
    by simp_all
  from assms Some have "comparePassword env inputPassword (password u)"
    by (simp add: login_def findOne_withPassword_def logger_def Let_def split: if_splits)
  with Some u show ?thesis
    by (simp add: findOne_withPassword_def)
qed

theorem login_token_only_after_match_witness:
  "map_of (fst (login example_env example_state ''alice'' ''rabbit'')) ''token''
     = Some (VStr ''alg-HS256_typ-JWT_.id-I_username-alice_iat-IIIII_.mac_key'')
   \<and> (\<exists>u. findOne_withPassword (\<lambda>u. username u = ''alice'') (users example_state) = Some u
           \<and> u \<in> set (users example_state) \<and> username u = ''alice''
           \<and> comparePassword example_env ''rabbit'' (password u))"
proof -
  have tok: "map_of (fst (login example_env example_state ''alice'' ''rabbit'')) ''token''
               = Some (VStr ''alg-HS256_typ-JWT_.id-I_username-alice_iat-IIIII_.mac_key'')"
    by (simp add: login_def findOne_withPassword_def logger_def example_env_def
        example_state_def jwt_sign_def jwt_header_def example_encode_def Let_def
        eval_nat_numeral)
  from login_token_only_after_match [OF tok] tok show ?thesis by simp
qed

text \<open>
  C2: usernames of the table being unique, when the table holds a user with the
  supplied username whose stored hash the supplied password matches, login resolves
  with success = true, the message "User logged in." and a token, and the token is a
  non-empty string: it is the compact serialisation that signing builds, which has
  two dots.
\<close>

theorem login_correct_credentials:
  assumes "distinct (map username (users s))"
    and "u \<in> set (users s)"
    and "username u = inputName"
    and "comparePassword env inputPassword (password u)"
  shows "\<exists>t. fst (login env s inputName inputPassword) =
                [(''success'', VBool True), (''message'', VStr ''User logged in.''),
                 (''token'', VStr t)]
              \<and> t \<noteq> []"
proof -
  from find_unique_username [OF assms(1,2)] assms(3)
  have "find (\<lambda>x. username x = inputName) (users s) = Some u" by simp
  with assms(4) jwt_sign_not_empty show ?thesis
    by (simp add: login_def findOne_withPassword_def logger_def Let_def)
qed

theorem login_correct_credentials_witness:
  "distinct (map username (users example_state))
   \<and> comparePassword example_env ''builder'' ''#builder''
   \<and> fst (login example_env example_state ''bob'' ''builder'') =
       [(''success'', VBool True), (''message'', VStr ''User logged in.''),
        (''token'', VStr ''alg-HS256_typ-JWT_.id-II_username-bob_iat-IIIII_.mac_key'')]
   \<and> ''alg-HS256_typ-JWT_.id-II_username-bob_iat-IIIII_.mac_key'' \<noteq> []"
proof -
  let ?bob = "\<lparr>username = ''bob'', password = ''#builder'', details = JStr ''b'',
               clientConfig = JNull, user_id = JNum 2\<rparr>"
  have d: "distinct (map username (users example_state))"
    by (simp add: example_state_def)
  have m: "?bob \<in> set (users example_state)"
    by (simp add: example_state_def)
  have n: "username ?bob = ''bob''" by simp
  have c: "comparePassword example_env ''builder'' (password ?bob)"
    by (simp add: example_env_def)
  from login_correct_credentials [OF d m n c]
  obtain t where "fst (login example_env example_state ''bob'' ''builder'') =
      [(''success'', VBool True), (''message'', VStr ''User logged in.''), (''token'', VStr t)]"
    by blast
  moreover have "map_of (fst (login example_env example_state ''bob'' ''builder'')) ''token''
      = Some (VStr ''alg-HS256_typ-JWT_.id-II_username-bob_iat-IIIII_.mac_key'')"
    by (simp add: login_def findOne_withPassword_def logger_def example_env_def
        example_state_def jwt_sign_def jwt_header_def example_encode_def Let_def
        eval_nat_numeral)
  ultimately show ?thesis using d c by simp
qed

text \<open>
  C4: usernames of the table being unique, when the table holds a user with the
  supplied username whose stored hash the supplied password does not match, login
  resolves with the object of exactly the two properties success = false and
  message = "Password did not match.", so it has no token property.
\<close>

theorem login_wrong_password:
  assumes "distinct (map username (users s))"
    and "u \<in> set (users s)"
    and "username u = inputName"
    and "\<not> comparePassword env inputPassword (password u)"
  shows "fst (login env s inputName inputPassword) =
           [(''success'', VBool False), (''message'', VStr ''Password did not match.'')]
         \<and> map_of (fst (login env s inputName inputPassword)) ''token'' = None"
proof -
  from find_unique_username [OF assms(1,2)] assms(3)
  have "find (\<lambda>x. username x = inputName) (users s) = Some u" by simp
  with assms(4) show ?thesis
    by (simp add: login_def findOne_withPassword_def logger_def)
qed

theorem login_wrong_password_witness:
  "distinct (map username (users example_state))
   \<and> \<not> comparePassword example_env ''hare'' ''#rabbit''
   \<and> fst (login example_env example_state ''alice'' ''hare'') =
       [(''success'', VBool False), (''message'', VStr ''Password did not match.'')]
   \<and> map_of (fst (login example_env example_state ''alice'' ''hare'')) ''token'' = None"
proof -
  let ?alice = "\<lparr>username = ''alice'', password = ''#rabbit'', details = JNull,
                 clientConfig = JNull, user_id = JNum 1\<rparr>"
  have d: "distinct (map username (users example_state))"
    by (simp add: example_state_def)
  have m: "?alice \<in> set (users example_state)"
    by (simp add: example_state_def)
  have n: "username ?alice = ''alice''" by simp
  have c: "\<not> comparePassword example_env ''hare'' (password ?alice)"
    by (simp add: example_env_def)
  from login_wrong_password [OF d m n c] d c show ?thesis by simp
qed

text \<open>
  C5, as the claim states it, fails: the payload signed into the token that login
  issues for bob has three properties, id, username and iat.
\<close>

theorem login_token_two_fields_counterexample:
  "map_of (fst (login example_env example_state ''bob'' ''builder'')) ''success''
     = Some (VBool True)
   \<and> map_of (fst (login example_env example_state ''bob'' ''builder'')) ''token''
       = Some (VStr ''alg-HS256_typ-JWT_.id-II_username-bob_iat-IIIII_.mac_key'')
   \<and> jwt_decode example_env ''alg-HS256_typ-JWT_.id-II_username-bob_iat-IIIII_.mac_key''
       = Some [(''id'', JNum 2), (''username'', JStr ''bob''), (''iat'', JNum 5)]
   \<and> map fst [(''id'', JNum 2), (''username'', JStr ''bob''), (''iat'', JNum (5::int))]
       \<noteq> [''id'', ''username'']"
  by (simp add: login_def findOne_withPassword_def logger_def example_env_def
        example_state_def jwt_sign_def jwt_header_def example_encode_def Let_def
        eval_nat_numeral
      jwt_decode_def example_decode_def)

text \<open>
  C5, amended: when login succeeds, the payload it hands to signing is the object of
  exactly the two properties id and username, holding the identifier and the username
  of the user that was looked up and whose password matched. The payload signed into
  the token is this object with a third property, iat, the time of signing: the token
  is the serialisation of the header, of these three claims and of their signature,
  and decoding it gives back exactly these three claims whenever the encodings hold no
  dot and the decoder reads the encoded claims back.
\<close>

theorem login_signed_payload:
  assumes "map_of (fst (login env s inputName inputPassword)) ''success'' = Some (VBool True)"
  shows "\<exists>u payload claims t.
           findOne_withPassword (\<lambda>u. username u = inputName) (users s) = Some u
           \<and> comparePassword env inputPassword (password u)
           \<and> payload = [(''id'', user_id u), (''username'', JStr (username u))]
           \<and> claims = [(''id'', user_id u), (''username'', JStr (username u)),
                        (''iat'', JNum (now env))]
           \<and> map_of (fst (login env s inputName inputPassword)) ''token'' = Some (VStr t)
           \<and> t = jwt_sign env payload (secretOrKey env)
           \<and> t = base64url_json env jwt_header @ ''.'' @ base64url_json env claims @ ''.''
                  @ hs256 env (base64url_json env jwt_header @ ''.''
                       @ base64url_json env claims) (secretOrKey env)
           \<and> (CHR ''.'' \<notin> set (base64url_json env jwt_header)
                \<and> CHR ''.'' \<notin> set (base64url_json env claims)
                \<and> CHR ''.'' \<notin> set (hs256 env (base64url_json env jwt_header @ ''.''
                                      @ base64url_json env claims) (secretOrKey env))
                \<and> json_base64url_decode env (base64url_json env claims) = Some claims
              \<longrightarrow> jwt_decode env t = Some claims)"
proof (cases "find (\<lambda>u. username u = inputName) (users s)")
  case None
  with assms show ?thesis
    by (simp add: login_def findOne_withPassword_def logger_def)
next
  case (Some u)
  let ?payload = "[(''id'', user_id u), (''username'', JStr (username u))]"
  let ?claims = "[(''id'', user_id u), (''username'', JStr (username u)),
                  (''iat'', JNum (now env))]"
  let ?input = "base64url_json env jwt_header @ ''.'' @ base64url_json env ?claims"
  let ?t = "jwt_sign env ?payload (secretOrKey env)"
  from assms Some have c: "comparePassword env inputPassword (password u)"
    by (simp add: login_def findOne_withPassword_def logger_def Let_def split: if_splits)
  with Some have tok: "map_of (fst (login env s inputName inputPassword)) ''token''
      = Some (VStr ?t)"
    by (simp add: login_def findOne_withPassword_def logger_def Let_def)
  have ser: "?t = base64url_json env jwt_header @ ''.'' @ base64url_json env ?claims @ ''.''
                  @ hs256 env ?input (secretOrKey env)"
    by (rule jwt_sign_login_payload)
  have dec: "jwt_decode env ?t = Some ?claims"
    if "CHR ''.'' \<notin> set (base64url_json env jwt_header)"
      and "CHR ''.'' \<notin> set (base64url_json env ?claims)"
      and "CHR ''.'' \<notin> set (hs256 env ?input (secretOrKey env))"
      and "json_base64url_decode env (base64url_json env ?claims) = Some ?claims"
  proof -
    from that(1-3) have "split_on (CHR ''.'') ?t =
        [base64url_json env jwt_header, base64url_json env ?claims,
         hs256 env ?input (secretOrKey env)]"
      unfolding ser using split_on_three [of "CHR ''.''"] by simp
    with that(4) show ?thesis by (simp add: jwt_decode_def)
  qed
  from Some have f: "findOne_withPassword (\<lambda>u. username u = inputName) (users s) = Some u"
    by (simp add: findOne_withPassword_def)
  from dec have dec': "CHR ''.'' \<notin> set (base64url_json env jwt_header)
          \<and> CHR ''.'' \<notin> set (base64url_json env ?claims)
          \<and> CHR ''.'' \<notin> set (hs256 env ?input (secretOrKey env))
          \<and> json_base64url_decode env (base64url_json env ?claims) = Some ?claims
        \<longrightarrow> jwt_decode env ?t = Some ?claims"
    by blast
  have "findOne_withPassword (\<lambda>u. username u = inputName) (users s) = Some u
      \<and> comparePassword env inputPassword (password u)
      \<and> ?payload = [(''id'', user_id u), (''username'', JStr (username u))]
      \<and> ?claims = [(''id'', user_id u), (''username'', JStr (username u)),
                     (''iat'', JNum (now env))]
      \<and> map_of (fst (login env s inputName inputPassword)) ''token'' = Some (VStr ?t)
      \<and> ?t = jwt_sign env ?payload (secretOrKey env)
      \<and> ?t = base64url_json env jwt_header @ ''.'' @ base64url_json env ?claims @ ''.''
               @ hs256 env ?input (secretOrKey env)
      \<and> (CHR ''.'' \<notin> set (base64url_json env jwt_header)
          \<and> CHR ''.'' \<notin> set (base64url_json env ?claims)
          \<and> CHR ''.'' \<notin> set (hs256 env ?input (secretOrKey env))
          \<and> json_base64url_decode env (base64url_json env ?claims) = Some ?claims
        \<longrightarrow> jwt_decode env ?t = Some ?claims)"
    using f c tok ser dec' by (intro conjI) (rule refl | assumption)+
  then show ?thesis by (intro exI)
qed

theorem login_signed_payload_witness:
  "map_of (fst (login example_env example_state ''alice'' ''rabbit'')) ''success''
     = Some (VBool True)
   \<and> map_of (fst (login example_env example_state ''alice'' ''rabbit'')) ''token''
       = Some (VStr ''alg-HS256_typ-JWT_.id-I_username-alice_iat-IIIII_.mac_key'')
   \<and> jwt_decode example_env ''alg-HS256_typ-JWT_.id-I_username-alice_iat-IIIII_.mac_key''
       = Some [(''id'', JNum 1), (''username'', JStr ''alice''), (''iat'', JNum 5)]"
proof -
  let ?claims = "[(''id'', JNum 1), (''username'', JStr ''alice''), (''iat'', JNum 5)]"
  have ok: "map_of (fst (login example_env example_state ''alice'' ''rabbit'')) ''success''
              = Some (VBool True)"
    by (simp add: login_def findOne_withPassword_def logger_def example_env_def
        example_state_def)
  have tok: "map_of (fst (login example_env example_state ''alice'' ''rabbit'')) ''token''
       = Some (VStr ''alg-HS256_typ-JWT_.id-I_username-alice_iat-IIIII_.mac_key'')"
    by (simp add: login_def findOne_withPassword_def logger_def example_env_def
        example_state_def jwt_sign_def jwt_header_def example_encode_def Let_def
        eval_nat_numeral)
  have h: "base64url_json example_env jwt_header = ''alg-HS256_typ-JWT_''"
    by (simp add: example_env_def jwt_header_def example_encode_def)
  have e: "base64url_json example_env ?claims = ''id-I_username-alice_iat-IIIII_''"
    by (simp add: example_env_def example_encode_def eval_nat_numeral)
  have g: "hs256 example_env x (secretOrKey example_env) = ''mac_key''" for x
    by (simp add: example_env_def)
  have r: "json_base64url_decode example_env ''id-I_username-alice_iat-IIIII_'' = Some ?claims"
    by (simp add: example_env_def example_decode_def)
  have n: "now example_env = 5" by (simp add: example_env_def)
  from login_signed_payload [OF ok]
  obtain u t where u: "findOne_withPassword (\<lambda>u. username u = ''alice'') (users example_state)
        = Some u"
    and t: "map_of (fst (login example_env example_state ''alice'' ''rabbit'')) ''token''
        = Some (VStr t)"
    and d: "CHR ''.'' \<notin> set (base64url_json example_env jwt_header)
          \<and> CHR ''.'' \<notin> set (base64url_json example_env
                [(''id'', user_id u), (''username'', JStr (username u)),
                 (''iat'', JNum (now example_env))])
          \<and> CHR ''.'' \<notin> set (hs256 example_env (base64url_json example_env jwt_header @ ''.''
                @ base64url_json example_env
                    [(''id'', user_id u), (''username'', JStr (username u)),
                     (''iat'', JNum (now example_env))]) (secretOrKey example_env))
          \<and> json_base64url_decode example_env (base64url_json example_env
                [(''id'', user_id u), (''username'', JStr (username u)),
                 (''iat'', JNum (now example_env))])
              = Some [(''id'', user_id u), (''username'', JStr (username u)),
                      (''iat'', JNum (now example_env))]
          \<longrightarrow> jwt_decode example_env t
              = Some [(''id'', user_id u), (''username'', JStr (username u)),
                      (''iat'', JNum (now example_env))]"
    by blast
  from u have u': "u = \<lparr>username = ''alice'', password = ''#rabbit'', details = JNull,
                        clientConfig = JNull, user_id = JNum 1\<rparr>"
    by (simp add: findOne_withPassword_def example_state_def)
  from t tok have t': "t = ''alg-HS256_typ-JWT_.id-I_username-alice_iat-IIIII_.mac_key''" by simp
  from d have "jwt_decode example_env ''alg-HS256_typ-JWT_.id-I_username-alice_iat-IIIII_.mac_key'' = Some ?claims"
    unfolding u' t' by (simp add: h e g r n)
  with ok tok show ?thesis by simp
qed

text \<open>
  C10: whatever the username, the password and the table, the result of login has a
  token property exactly when its success property is true, it never has a user
  property, and its message is one of "User logged in.", "No such user." and
  "Password did not match.".
\<close>

theorem login_result_shape:
  "(let r = fst (login env s inputName inputPassword) in
      (map_of r ''token'' \<noteq> None) = (map_of r ''success'' = Some (VBool True))
      \<and> map_of r ''user'' = None
      \<and> map_of r ''message'' \<in>
          {Some (VStr ''User logged in.''), Some (VStr ''No such user.''),
           Some (VStr ''Password did not match.'')})"
  by (simp add: login_def findOne_withPassword_def logger_def Let_def split: option.split)

section \<open>Registration\<close>

text \<open>
  C6: when the persistence layer, given the values that register hands it, creates and
  returns a record, register resolves with success = true, the message
  "Registration completed." and that record as it is (no projection), and the table
  is the one the persistence layer left. The values register hands over are the
  submitted ones with the password replaced by its hash: so, for every persistence
  layer that stores what it is given, the record is a row of the new table, its
  stored password is the hash of the plaintext and the returned record includes it;
  it differs from the plaintext whenever the hash of a password differs from the
  password.
\<close>

theorem register_created:
  assumes "create env (users s)
             \<lparr>username = username userData, password = generateHash env (password userData),
              details = details userData, clientConfig = clientConfig userData\<rparr>
           = Inr (rows, Some u)"
  shows "fst (register env s userData) =
           Inr [(''success'', VBool True), (''message'', VStr ''Registration completed.''),
                (''user'', VUser u)]
         \<and> users (snd (register env s userData)) = rows
         \<and> (stores_given (create env) \<longrightarrow>
              u \<in> set (users (snd (register env s userData)))
              \<and> username u = username userData
              \<and> password u = generateHash env (password userData)
              \<and> (generateHash env (password userData) \<noteq> password userData
                   \<longrightarrow> password u \<noteq> password userData))"
proof -
  let ?v = "\<lparr>username = username userData, password = generateHash env (password userData),
             details = details userData, clientConfig = clientConfig userData\<rparr>"
  have res: "register env s userData =
      (Inr [(''success'', VBool True), (''message'', VStr ''Registration completed.''),
            (''user'', VUser u)],
       (logger Debug (''Registering user '' @ username userData @ ''.'') s)\<lparr>users := rows\<rparr>)"
    using assms by (simp add: register_def logger_def Let_def)
  have "u \<in> set rows \<and> username u = username userData
        \<and> password u = generateHash env (password userData)"
    if "stores_given (create env)"
  proof -
    from that assms have "u \<in> set rows \<and> user_data.truncate u = ?v"
      unfolding stores_given_def by blast
    then show ?thesis by (auto simp: user_data.truncate_def)
  qed
  with res show ?thesis by auto
qed

theorem register_created_witness:
  "stores_given (create example_env)
   \<and> fst (register example_env example_state
          \<lparr>username = ''carol'', password = ''tea'', details = JNull, clientConfig = JNull\<rparr>) =
     Inr [(''success'', VBool True), (''message'', VStr ''Registration completed.''),
          (''user'', VUser \<lparr>username = ''carol'', password = ''#tea'', details = JNull,
                           clientConfig = JNull, user_id = JNum 3\<rparr>)]
   \<and> \<lparr>username = ''carol'', password = ''#tea'', details = JNull,
       clientConfig = JNull, user_id = JNum 3\<rparr>
       \<in> set (users (snd (register example_env example_state
            \<lparr>username = ''carol'', password = ''tea'', details = JNull, clientConfig = JNull\<rparr>)))
   \<and> generateHash example_env ''tea'' = ''#tea''
   \<and> ''#tea'' \<noteq> ''tea''"
proof -
  let ?d = "\<lparr>username = ''carol'', password = ''tea'', details = JNull, clientConfig = JNull\<rparr>"
  let ?u = "\<lparr>username = ''carol'', password = ''#tea'', details = JNull,
             clientConfig = JNull, user_id = JNum 3\<rparr>"
  have c: "create example_env (users example_state)
             \<lparr>username = username ?d, password = generateHash example_env (password ?d),
              details = details ?d, clientConfig = clientConfig ?d\<rparr>
           = Inr (users example_state @ [?u], Some ?u)"
    by (simp add: example_env_def example_state_def User_create_def Let_def)
  have st: "stores_given (create example_env)"
    using User_create_stores_given by (simp add: example_env_def)
  have h: "generateHash example_env ''tea'' = ''#tea''"
    by (simp add: example_env_def)
  from register_created [OF c] st h show ?thesis by simp
qed

text \<open>
  C7: when the persistence layer rejects with an error, register does not resolve with
  a result object: it logs the error at level error and its promise is rejected with
  the same error. The table stays as it was.
\<close>

theorem register_rethrows:
  assumes "create env (users s)
             \<lparr>username = username userData, password = generateHash env (password userData),
              details = details userData, clientConfig = clientConfig userData\<rparr>
           = Inl e"
  shows "register env s userData =
           (Inl e,
            s\<lparr>logged := logged s @
                 [(Debug, ''Registering user '' @ username userData @ ''.''),
                  (Err, ''Could not register user: '' @ error_toString e @ ''.'')]\<rparr>)"
  using assms by (simp add: register_def logger_def Let_def)

theorem register_rethrows_witness:
  "register example_env example_state
     \<lparr>username = ''alice'', password = ''tea'', details = JNull, clientConfig = JNull\<rparr> =
     (Inl (Error ''SequelizeUniqueConstraintError'' ''Validation error''),
      example_state\<lparr>logged :=
        [(Debug, ''Registering user alice.''),
         (Err, ''Could not register user: SequelizeUniqueConstraintError: Validation error.'')]\<rparr>)"
proof -
  let ?d = "\<lparr>username = ''alice'', password = ''tea'', details = JNull, clientConfig = JNull\<rparr>"
  have c: "create example_env (users example_state)
             \<lparr>username = username ?d, password = generateHash example_env (password ?d),
              details = details ?d, clientConfig = clientConfig ?d\<rparr>
           = Inl (Error ''SequelizeUniqueConstraintError'' ''Validation error'')"
    by (simp add: example_env_def example_state_def User_create_def)
  from register_rethrows [OF c] show ?thesis
    by (simp add: example_state_def)
qed

text \<open>
  C8: when the persistence layer resolves with no record, register resolves with the
  object of exactly the two properties success = false and
  message = "Registration failed.", so it has no user property.
\<close>

theorem register_no_record:
  assumes "create env (users s)
             \<lparr>username = username userData, password = generateHash env (password userData),
              details = details userData, clientConfig = clientConfig userData\<rparr>
           = Inr (rows, None)"
  shows "\<exists>r. fst (register env s userData) = Inr r
             \<and> r = [(''success'', VBool False), (''message'', VStr ''Registration failed.'')]
             \<and> map_of r ''user'' = None"
  using assms by (simp add: register_def logger_def Let_def)

theorem register_no_record_witness:
  "create (example_env\<lparr>create := \<lambda>rows v. Inr (rows, None)\<rparr>) (users example_state)
     \<lparr>username = ''dave'', password = ''#pw'', details = JNull, clientConfig = JNull\<rparr>
     = Inr (users example_state, None)
   \<and> (\<exists>r. fst (register (example_env\<lparr>create := \<lambda>rows v. Inr (rows, None)\<rparr>) example_state
               \<lparr>username = ''dave'', password = ''pw'', details = JNull, clientConfig = JNull\<rparr>)
             = Inr r
           \<and> r = [(''success'', VBool False), (''message'', VStr ''Registration failed.'')]
           \<and> map_of r ''user'' = None)"
proof -
  let ?env = "example_env\<lparr>create := \<lambda>rows v. Inr (rows, None)\<rparr>"
  let ?d = "\<lparr>username = ''dave'', password = ''pw'', details = JNull, clientConfig = JNull\<rparr>"
  have c: "create ?env (users example_state)
             \<lparr>username = username ?d, password = generateHash ?env (password ?d),
              details = details ?d, clientConfig = clientConfig ?d\<rparr>
           = Inr (users example_state, None)"
    by simp
  have c': "create ?env (users example_state)
     \<lparr>username = ''dave'', password = ''#pw'', details = JNull, clientConfig = JNull\<rparr>
     = Inr (users example_state, None)"
    by simp
  from register_no_record [OF c] c' show ?thesis by simp
qed

section \<open>The strategy callback looks the user up by id\<close>

text \<open>
  C9: the callback looks the user up by the id of the decoded payload and calls next
  with no error in every case. When the table holds a user with that id, it hands
  over the record of a user with that id, read under the default scope (the very
  user when identifiers are unique); when it holds none, it hands over false.
\<close>

theorem jwtStrategy_lookup:
  "((\<exists>u\<in>set (users s). Some (user_id u) = map_of jwtPayload ''id'') \<longrightarrow>
      (\<exists>u\<in>set (users s). Some (user_id u) = map_of jwtPayload ''id''
          \<and> jwtStrategy s jwtPayload = Next None (Some (defaultScope u))))
   \<and> (distinct (map user_id (users s)) \<longrightarrow>
        (\<forall>u\<in>set (users s). Some (user_id u) = map_of jwtPayload ''id'' \<longrightarrow>
            jwtStrategy s jwtPayload = Next None (Some (defaultScope u))))
   \<and> ((\<forall>u\<in>set (users s). Some (user_id u) \<noteq> map_of jwtPayload ''id'') \<longrightarrow>
        jwtStrategy s jwtPayload = Next None None)"
proof (intro conjI impI ballI)
  assume "\<exists>u\<in>set (users s). Some (user_id u) = map_of jwtPayload ''id''"
  from find_present [OF this]
  show "\<exists>u\<in>set (users s). Some (user_id u) = map_of jwtPayload ''id''
          \<and> jwtStrategy s jwtPayload = Next None (Some (defaultScope u))"
    by (auto simp: jwtStrategy_def findOne_def)
next
  fix u
  assume "distinct (map user_id (users s))" and "u \<in> set (users s)"
    and eq: "Some (user_id u) = map_of jwtPayload ''id''"
  from find_unique_id [OF this(1,2)] eq
  show "jwtStrategy s jwtPayload = Next None (Some (defaultScope u))"
    by (simp add: jwtStrategy_def findOne_def)
next
  assume "\<forall>u\<in>set (users s). Some (user_id u) \<noteq> map_of jwtPayload ''id''"
  then have "find (\<lambda>u. Some (user_id u) = map_of jwtPayload ''id'') (users s) = None"
    by (intro find_none) simp
  then show "jwtStrategy s jwtPayload = Next None None"
    by (simp add: jwtStrategy_def findOne_def)
qed

theorem jwtStrategy_lookup_witness:
  "distinct (map user_id (users example_state))
   \<and> jwtStrategy example_state [(''id'', JNum 2), (''username'', JStr ''bob'')] =
       Next None (Some \<lparr>view_id = JNum 2, view_username = ''bob'', view_details = JStr ''b'',
                        view_clientConfig = JNull\<rparr>)
   \<and> jwtStrategy example_state [(''id'', JNum 9), (''username'', JStr ''bob'')] = Next None None"
proof -
  let ?bob = "\<lparr>username = ''bob'', password = ''#builder'', details = JStr ''b'',
               clientConfig = JNull, user_id = JNum 2\<rparr>"
  let ?p = "[(''id'', JNum 2), (''username'', JStr ''bob'')]"
  let ?q = "[(''id'', JNum 9), (''username'', JStr ''bob'')]"
  have d: "distinct (map user_id (users example_state))"
    by (simp add: example_state_def)
  have m: "?bob \<in> set (users example_state)"
    by (simp add: example_state_def)
  have i: "Some (user_id ?bob) = map_of ?p ''id''" by simp
  have n: "\<forall>u\<in>set (users example_state). Some (user_id u) \<noteq> map_of ?q ''id''"
    by (simp add: example_state_def)
  from jwtStrategy_lookup [of example_state ?p] d m i
  have "jwtStrategy example_state ?p = Next None (Some (defaultScope ?bob))" by blast
  moreover from jwtStrategy_lookup [of example_state ?q] n
  have "jwtStrategy example_state ?q = Next None None" by blast
  ultimately show ?thesis using d by (simp add: defaultScope_def)
qed

end
